theory Spec2Isabelle
  imports Main
begin

section \<open>Data model\<close>

text \<open>
  The service of \<^verbatim>\<open>src/service/UserService.js\<close> works on three tables
  (\<^verbatim>\<open>UserModel\<close>, \<^verbatim>\<open>RegistrationCodeModel\<close>, \<^verbatim>\<open>TokenModel\<close>) and on a
  handful of capabilities (bcrypt, uuid, the token signer, the code generator, the clock,
  the mail sender). The tables are the state, passed in and returned; the capabilities
  are the fields of an environment record, so that every theorem holds for any hasher,
  signer, clock and sender.

  Dates are milliseconds since the epoch (what \<^verbatim>\<open>Date.valueOf\<close> gives and what
  \<^verbatim>\<open><\<close> and \<^verbatim>\<open>>\<close> compare). The getters and setters of a date work on
  the fields of the host's local time, so the host's time zone is a capability too.
\<close>

record user =
  user_id :: nat
  email :: string
  password :: string
  activationLink :: string
  isActivated :: bool
  displayName :: string
  location :: string
  notifyAboutProductUpdates :: bool
  notifyAboutMarketNewsletter :: bool
  notifyAboutComments :: bool
  notifyAboutPurchases :: bool

text \<open>
  Modelled from the spec: \<^verbatim>\<open>dtos/UserDto\<close> is not among the sources. The spec calls it
  a read-only view of the non-sensitive fields, never the password hash: the projection
  keeps every column but \<^verbatim>\<open>password\<close> and \<^verbatim>\<open>activationLink\<close>.
\<close>

record userDto =
  dto_id :: nat
  dto_email :: string
  dto_isActivated :: bool
  dto_displayName :: string
  dto_location :: string
  dto_notifyAboutProductUpdates :: bool
  dto_notifyAboutMarketNewsletter :: bool
  dto_notifyAboutComments :: bool
  dto_notifyAboutPurchases :: bool

definition fromModel :: "user \<Rightarrow> userDto" where
  "fromModel u =
     \<lparr>dto_id = user_id u, dto_email = email u, dto_isActivated = isActivated u,
      dto_displayName = displayName u, dto_location = location u,
      dto_notifyAboutProductUpdates = notifyAboutProductUpdates u,
      dto_notifyAboutMarketNewsletter = notifyAboutMarketNewsletter u,
      dto_notifyAboutComments = notifyAboutComments u,
      dto_notifyAboutPurchases = notifyAboutPurchases u\<rparr>"

text \<open>
  A row of \<^verbatim>\<open>RegistrationCodeModel\<close>. The table is keyed by email (the service
  reads it with \<^verbatim>\<open>findOne({where: {email}})\<close> and writes it with \<^verbatim>\<open>upsert\<close>), so
  it is a map from the email to the other three columns.
\<close>

record regCode =
  otp :: nat
  expiresIn :: int
  isConfirmed :: bool

text \<open>
  Modelled from the spec: \<^verbatim>\<open>dtos/RegCodeDto\<close> is not among the sources. The projection
  of a code row keeps the email, the expiry and the confirmation flag and leaves the
  one-time code out.
\<close>

record regCodeDto =
  rc_email :: string
  rc_expiresIn :: int
  rc_isConfirmed :: bool

definition regCodeDtoOf :: "string \<Rightarrow> regCode \<Rightarrow> regCodeDto" where
  "regCodeDtoOf em c =
     \<lparr>rc_email = em, rc_expiresIn = expiresIn c, rc_isConfirmed = isConfirmed c\<rparr>"

text \<open>A row of \<^verbatim>\<open>TokenModel\<close>: a refresh token value stored against a user id.\<close>

record tokenRow =
  tok_userId :: nat
  tok_refreshToken :: string

record tokenPair =
  accessToken :: string
  refreshToken :: string

text \<open>What sign-up, sign-in and refresh return: \<^verbatim>\<open>{ ...tokens, user: userDto }\<close>.\<close>

record authResult =
  res_accessToken :: string
  res_refreshToken :: string
  res_user :: userDto

record state =
  userModel :: "user list"
  nextUserId :: nat
  registrationCodeModel :: "string \<rightharpoonup> regCode"
  tokenModel :: "tokenRow list"

subsection \<open>Errors\<close>

text \<open>
  \<^verbatim>\<open>ApiError.BadRequest(message, errors)\<close> carries a title and a list of items
  \<^verbatim>\<open>{value, msg, param, ...}\<close>. The source's texts are Russian sentences; each is
  named here by the error kind it announces:
  \<^item> \<open>AlreadyRegistered\<close>: a user with this email already exists;
  \<^item> \<open>RegistrationNotConfirmed\<close>: the account is not confirmed;
  \<^item> \<open>CooldownActive\<close>: repeat the sending of the code in \<open>secondsLeft\<close>;
  \<^item> \<open>InvalidCode\<close>: the code is wrong;
  \<^item> \<open>ExpiredCode\<close>: the code has expired, request a new one;
  \<^item> \<open>Mismatch\<close>: the passwords do not match;
  \<^item> \<open>InvalidCredentials\<close>: the old password is wrong;
  \<^item> \<open>NoOpChange\<close>: the new password must differ from the old one.
  The titles are: registration error, code sending error, code entry error, password
  update error.
\<close>

datatype title = RegistrationError | CodeSendError | CodeEntryError | PasswordUpdateError

datatype message =
    AlreadyRegistered | RegistrationNotConfirmed | CooldownActive | InvalidCode
  | ExpiredCode | Mismatch | InvalidCredentials | NoOpChange

datatype jsValue = Str string | Num nat

record errorItem =
  err_value :: jsValue
  msg :: message
  param :: string
  secondsLeft :: "int option"
  isExpired :: "bool option"

text \<open>
  \<open>TypeError\<close> is what JavaScript raises when a property of \<^verbatim>\<open>null\<close> is read
  (\<^verbatim>\<open>user.password\<close>, \<^verbatim>\<open>user.update\<close>, the projection of a missing row);
  \<open>MailError\<close> is the rejection of the mail sender's promise, which the awaiting
  caller rethrows.
\<close>

datatype error =
    BadRequest title "errorItem list"
  | UnauthorizedError
  | TypeError
  | MailError

definition item :: "jsValue \<Rightarrow> message \<Rightarrow> string \<Rightarrow> errorItem" where
  "item v m p = \<lparr>err_value = v, msg = m, param = p, secondsLeft = None, isExpired = None\<rparr>"

subsection \<open>Capabilities\<close>

text \<open>
  \<^item> \<open>bcrypt_hash\<close>, \<open>bcrypt_compare\<close>: \<^verbatim>\<open>bcrypt.hash(p, 7)\<close> and
    \<^verbatim>\<open>bcrypt.compare(p, digest)\<close>;
  \<^item> \<open>uuid_v4\<close>: the value \<^verbatim>\<open>uuid.v4()\<close> draws;
  \<^item> \<open>generateTokens\<close>, \<open>validateRefreshToken\<close>: the signer of
    \<^verbatim>\<open>TokenService\<close>, which is not among the sources. The spec gives it as
    \<^verbatim>\<open>issuePair(claims)\<close> and \<^verbatim>\<open>validateRefresh(token) -> claims | invalid\<close>;
  \<^item> \<open>generateCode\<close>: the value \<^verbatim>\<open>utils/generateCode\<close> draws (not among the
    sources; the spec calls it a numeric code);
  \<^item> \<open>currentDate\<close>: the clock read by \<^verbatim>\<open>new Date()\<close> where a stored expiry is
    compared; \<open>date\<close>: the later read from which the new expiry is computed;
  \<^item> \<open>localTZA\<close>: the offset of the host's time zone in milliseconds, as ECMA-262
    gives it: \<open>localTZA t True\<close> is the offset in force at the instant \<open>t\<close>,
    \<open>localTZA t False\<close> the offset by which the local time value \<open>t\<close> is read
    back as an instant;
  \<^item> \<open>mailDelivered\<close>: whether the promise of
    \<^verbatim>\<open>MailService.sendRegistrationCode(email, code)\<close> is fulfilled (\<open>True\<close>) or
    rejected;
  \<^item> \<open>columnDefaults\<close>: the values \<^verbatim>\<open>UserModel.create\<close> gives the columns the
    caller does not set (declared in \<^verbatim>\<open>models/models\<close>, not among the sources).
\<close>

record env =
  bcrypt_hash :: "string \<Rightarrow> string"
  bcrypt_compare :: "string \<Rightarrow> string \<Rightarrow> bool"
  uuid_v4 :: string
  generateTokens :: "userDto \<Rightarrow> tokenPair"
  validateRefreshToken :: "string \<Rightarrow> userDto option"
  generateCode :: nat
  currentDate :: int
  date :: int
  localTZA :: "int \<Rightarrow> bool \<Rightarrow> int"
  mailDelivered :: "string \<Rightarrow> nat \<Rightarrow> bool"
  columnDefaults :: user

section \<open>Store operations\<close>

text \<open>\<^verbatim>\<open>UserModel.findOne({where: {email}})\<close>: the first row with this email.\<close>

definition findByEmail :: "string \<Rightarrow> user list \<Rightarrow> user option" where
  "findByEmail em us = find (\<lambda>u. email u = em) us"

text \<open>\<^verbatim>\<open>UserModel.findByPk(id)\<close> and \<^verbatim>\<open>findOne({where: {id}})\<close>.\<close>

definition findByPk :: "nat \<Rightarrow> user list \<Rightarrow> user option" where
  "findByPk i us = find (\<lambda>u. user_id u = i) us"

text \<open>
  \<^verbatim>\<open>user.update(patch)\<close>: an \<^verbatim>\<open>UPDATE ... WHERE id = ...\<close>, which rewrites the
  patched columns of the rows with this primary key.
\<close>

definition updateByPk :: "nat \<Rightarrow> (user \<Rightarrow> user) \<Rightarrow> user list \<Rightarrow> user list" where
  "updateByPk i patch us = map (\<lambda>u. if user_id u = i then patch u else u) us"

text \<open>
  Modelled from the spec: \<^verbatim>\<open>TokenService.findRefreshToken\<close>,
  \<^verbatim>\<open>removeRefreshToken\<close> and \<^verbatim>\<open>saveRefreshToken\<close> are not among the sources. The
  spec gives the session store as \<^verbatim>\<open>findByValue(refreshToken)\<close>,
  \<^verbatim>\<open>removeByValue(refreshToken)\<close> and \<^verbatim>\<open>save(userId, refreshToken)\<close> with overwrite
  semantics: the token is persisted against the account id, overwriting any prior stored
  token for that id.
\<close>

definition findRefreshToken :: "string \<Rightarrow> tokenRow list \<Rightarrow> tokenRow option" where
  "findRefreshToken t ts = find (\<lambda>r. tok_refreshToken r = t) ts"

definition removeRefreshToken :: "string \<Rightarrow> tokenRow list \<Rightarrow> tokenRow list" where
  "removeRefreshToken t ts = filter (\<lambda>r. tok_refreshToken r \<noteq> t) ts"

fun saveRefreshToken :: "nat \<Rightarrow> string \<Rightarrow> tokenRow list \<Rightarrow> tokenRow list" where
  "saveRefreshToken uid t [] = [\<lparr>tok_userId = uid, tok_refreshToken = t\<rparr>]"
| "saveRefreshToken uid t (r # rs) =
     (if tok_userId r = uid then r\<lparr>tok_refreshToken := t\<rparr> # rs
      else r # saveRefreshToken uid t rs)"

subsection \<open>Dates\<close>

text \<open>
  The abstract operations of ECMA-262 on time values: \<^verbatim>\<open>LocalTime(t)\<close> and
  \<^verbatim>\<open>UTC(t)\<close> move between an instant and the local time value of the host's zone,
  and the field functions split a time value into day, hour, minute, second and
  millisecond.
\<close>

definition LocalTime :: "env \<Rightarrow> int \<Rightarrow> int" where
  "LocalTime e t = t + localTZA e t True"

definition UTC :: "env \<Rightarrow> int \<Rightarrow> int" where
  "UTC e t = t - localTZA e t False"

definition Day :: "int \<Rightarrow> int" where
  "Day t = t div 86400000"

definition HourFromTime :: "int \<Rightarrow> int" where
  "HourFromTime t = (t div 3600000) mod 24"

definition MinFromTime :: "int \<Rightarrow> int" where
  "MinFromTime t = (t div 60000) mod 60"

definition SecFromTime :: "int \<Rightarrow> int" where
  "SecFromTime t = (t div 1000) mod 60"

definition msFromTime :: "int \<Rightarrow> int" where
  "msFromTime t = t mod 1000"

definition MakeTime :: "int \<Rightarrow> int \<Rightarrow> int \<Rightarrow> int \<Rightarrow> int" where
  "MakeTime hour mn sec ms = hour * 3600000 + mn * 60000 + sec * 1000 + ms"

definition MakeDate :: "int \<Rightarrow> int \<Rightarrow> int" where
  "MakeDate day time = day * 86400000 + time"

text \<open>
  \<^verbatim>\<open>Date.prototype.getSeconds\<close> and \<^verbatim>\<open>getMinutes\<close>: the seconds within the
  minute and the minutes within the hour of the local time, 0 to 59.
\<close>

definition getSeconds :: "env \<Rightarrow> int \<Rightarrow> int" where
  "getSeconds e d = SecFromTime (LocalTime e d)"

definition getMinutes :: "env \<Rightarrow> int \<Rightarrow> int" where
  "getMinutes e d = MinFromTime (LocalTime e d)"

text \<open>
  \<^verbatim>\<open>Date.prototype.setMinutes(min)\<close>: the local time with its minute field replaced
  (a minute of 60 carries into the hour), read back as an instant. The clip of
  ECMA-262 to 8.64e15 milliseconds around the epoch is left out.
\<close>

definition setMinutes :: "env \<Rightarrow> int \<Rightarrow> int \<Rightarrow> int" where
  "setMinutes e d mn =
     (let t = LocalTime e d;
          time = MakeTime (HourFromTime t) mn (SecFromTime t) (msFromTime t)
      in UTC e (MakeDate (Day t) time))"

section \<open>The service\<close>

subsection \<open>signUp (lines 13 to 57)\<close>

definition signUp :: "env \<Rightarrow> string \<Rightarrow> string \<Rightarrow> state \<Rightarrow> (error + authResult) \<times> state" where
  "signUp e em pw s =
     (case findByEmail em (userModel s) of
        Some candidate \<Rightarrow>
          (Inl (BadRequest RegistrationError [item (Str em) AlreadyRegistered ''email'']), s)
      | None \<Rightarrow>
          if (case registrationCodeModel s em of
                None \<Rightarrow> True
              | Some codeData \<Rightarrow> \<not> isConfirmed codeData)
          then (Inl (BadRequest RegistrationError
                       [item (Str em) RegistrationNotConfirmed ''email'']), s)
          else
            let hashPassword = bcrypt_hash e pw;
                usr = (columnDefaults e)\<lparr>user_id := nextUserId s, email := em,
                         password := hashPassword, activationLink := uuid_v4 e,
                         isActivated := True\<rparr>;
                s1 = s\<lparr>userModel := userModel s @ [usr], nextUserId := Suc (nextUserId s)\<rparr>;
                s2 = s1\<lparr>registrationCodeModel := (registrationCodeModel s1)(em := None)\<rparr>;
                dto = fromModel usr;
                tokens = generateTokens e dto;
                s3 = s2\<lparr>tokenModel :=
                         saveRefreshToken (dto_id dto) (refreshToken tokens) (tokenModel s2)\<rparr>
            in (Inr \<lparr>res_accessToken = accessToken tokens,
                      res_refreshToken = refreshToken tokens, res_user = dto\<rparr>, s3))"

subsection \<open>refresh (lines 110 to 134)\<close>

text \<open>
  \<^verbatim>\<open>!refreshToken\<close> holds of the empty string. When the validated claims name no row
  of \<^verbatim>\<open>UserModel\<close>, \<^verbatim>\<open>findOne\<close> gives \<^verbatim>\<open>null\<close> and the projection of
  \<^verbatim>\<open>null\<close> raises; the stored token has been removed by then.
\<close>

definition refresh :: "env \<Rightarrow> string \<Rightarrow> state \<Rightarrow> (error + authResult) \<times> state" where
  "refresh e tok s =
     (if tok = [] then (Inl UnauthorizedError, s)
      else
        case findRefreshToken tok (tokenModel s) of
          None \<Rightarrow> (Inl UnauthorizedError, s)
        | Some tokenFromDB \<Rightarrow>
            (let s1 = s\<lparr>tokenModel := removeRefreshToken tok (tokenModel s)\<rparr> in
             (case validateRefreshToken e tok of
                None \<Rightarrow> (Inl UnauthorizedError, s1)
              | Some userData \<Rightarrow>
                  (case findByPk (dto_id userData) (userModel s1) of
                     None \<Rightarrow> (Inl TypeError, s1)
                   | Some usr \<Rightarrow>
                       (let dto = fromModel usr;
                            tokens = generateTokens e dto;
                            s2 = s1\<lparr>tokenModel :=
                                     saveRefreshToken (dto_id dto) (refreshToken tokens)
                                       (tokenModel s1)\<rparr>
                        in (Inr \<lparr>res_accessToken = accessToken tokens,
                                  res_refreshToken = refreshToken tokens, res_user = dto\<rparr>,
                            s2))))))"

subsection \<open>sendRegistrationCode (lines 136 to 185)\<close>

text \<open>
  \<^verbatim>\<open>date.setMinutes(date.getMinutes() + 1)\<close> moves the date one minute forward on
  the local clock. The sender is awaited after the upsert: when its promise is
  rejected the call throws, and the row has been written.
\<close>

definition sendRegistrationCode :: "env \<Rightarrow> string \<Rightarrow> state \<Rightarrow> (error + regCodeDto) \<times> state" where
  "sendRegistrationCode e em s =
     (case findByEmail em (userModel s) of
        Some candidate \<Rightarrow>
          (Inl (BadRequest CodeSendError [item (Str em) AlreadyRegistered ''email'']), s)
      | None \<Rightarrow>
          let issue =
                (let code = generateCode e;
                     date' = setMinutes e (date e) (getMinutes e (date e) + 1);
                     codeData = \<lparr>otp = code, expiresIn = date', isConfirmed = False\<rparr>;
                     s1 = s\<lparr>registrationCodeModel := (registrationCodeModel s)(em \<mapsto> codeData)\<rparr>;
                     codeDto = regCodeDtoOf em codeData
                 in if mailDelivered e em code then (Inr codeDto, s1) else (Inl MailError, s1))
          in
          (case registrationCodeModel s em of
             None \<Rightarrow> issue
           | Some candidateCode \<Rightarrow>
               (if expiresIn candidateCode > currentDate e
                then (Inl (BadRequest CodeSendError
                        [(item (Str em) CooldownActive ''email'')
                           \<lparr>secondsLeft :=
                              Some (getSeconds e (expiresIn candidateCode)
                                      - getSeconds e (currentDate e))\<rparr>]), s)
                else issue)))"

subsection \<open>verifyRegistrationCode (lines 187 to 222)\<close>

text \<open>
  \<^verbatim>\<open>codeData.update({ isConfirmed: true })\<close> sets the flag on the loaded row at once
  and writes it to the table; the model takes the write as done when the call returns.
\<close>

definition verifyRegistrationCode :: "env \<Rightarrow> string \<Rightarrow> nat \<Rightarrow> state \<Rightarrow> (error + regCodeDto) \<times> state" where
  "verifyRegistrationCode e em code s =
     (case (case registrationCodeModel s em of
              None \<Rightarrow> None
            | Some c \<Rightarrow> if otp c = code then Some c else None) of
        None \<Rightarrow>
          (Inl (BadRequest CodeEntryError
                  [(item (Num code) InvalidCode ''code'')\<lparr>isExpired := Some False\<rparr>]), s)
      | Some codeData \<Rightarrow>
          if expiresIn codeData < currentDate e
          then (Inl (BadRequest CodeEntryError
                       [(item (Num code) ExpiredCode ''code'')\<lparr>isExpired := Some True\<rparr>]), s)
          else
            let codeData' = codeData\<lparr>isConfirmed := True\<rparr>;
                s1 = s\<lparr>registrationCodeModel := (registrationCodeModel s)(em \<mapsto> codeData')\<rparr>
            in (Inr (regCodeDtoOf em codeData'), s1))"

subsection \<open>updateProfileData (lines 224 to 231)\<close>

text \<open>
  A field the caller leaves out is \<^verbatim>\<open>undefined\<close> after the destructuring, and
  \<^verbatim>\<open>update\<close> leaves the column of an undefined value alone: each field of the input
  is optional.
\<close>

record profileData =
  pd_email :: "string option"
  pd_displayName :: "string option"
  pd_location :: "string option"
  pd_notifyAboutProductUpdates :: "bool option"
  pd_notifyAboutMarketNewsletter :: "bool option"
  pd_notifyAboutComments :: "bool option"
  pd_notifyAboutPurchases :: "bool option"

definition orKeep :: "'a option \<Rightarrow> 'a \<Rightarrow> 'a" where
  "orKeep v old = (case v of None \<Rightarrow> old | Some x \<Rightarrow> x)"

definition applyProfile :: "profileData \<Rightarrow> user \<Rightarrow> user" where
  "applyProfile d u =
     u\<lparr>email := orKeep (pd_email d) (email u),
       displayName := orKeep (pd_displayName d) (displayName u),
       location := orKeep (pd_location d) (location u),
       notifyAboutProductUpdates :=
         orKeep (pd_notifyAboutProductUpdates d) (notifyAboutProductUpdates u),
       notifyAboutMarketNewsletter :=
         orKeep (pd_notifyAboutMarketNewsletter d) (notifyAboutMarketNewsletter u),
       notifyAboutComments := orKeep (pd_notifyAboutComments d) (notifyAboutComments u),
       notifyAboutPurchases := orKeep (pd_notifyAboutPurchases d) (notifyAboutPurchases u)\<rparr>"

definition updateProfileData :: "profileData \<Rightarrow> nat \<Rightarrow> state \<Rightarrow> (error + userDto) \<times> state" where
  "updateProfileData d userId s =
     (case findByPk userId (userModel s) of
        None \<Rightarrow> (Inl TypeError, s)
      | Some usr \<Rightarrow>
          (Inr (fromModel (applyProfile d usr)),
           s\<lparr>userModel := updateByPk (user_id usr) (applyProfile d) (userModel s)\<rparr>))"

subsection \<open>updateProfilePassword (lines 233 to 281)\<close>

definition updateProfilePassword ::
  "env \<Rightarrow> string \<Rightarrow> string \<Rightarrow> string \<Rightarrow> nat \<Rightarrow> state \<Rightarrow> (error + userDto) \<times> state" where
  "updateProfilePassword e oldPassword newPassword confirmNewPassword userId s =
     (if newPassword \<noteq> confirmNewPassword
      then (Inl (BadRequest PasswordUpdateError
                   [item (Str confirmNewPassword) Mismatch ''confirmNewPassword'']), s)
      else
        case findByPk userId (userModel s) of
          None \<Rightarrow> (Inl TypeError, s)
        | Some usr \<Rightarrow>
            if \<not> bcrypt_compare e oldPassword (password usr)
            then (Inl (BadRequest PasswordUpdateError
                         [item (Str oldPassword) InvalidCredentials ''oldPassword'']), s)
            else if bcrypt_compare e newPassword (password usr)
            then (Inl (BadRequest PasswordUpdateError
                         [item (Str newPassword) NoOpChange ''newPassword'']), s)
            else
              let hashNewPassword = bcrypt_hash e newPassword;
                  patch = (\<lambda>u. u\<lparr>password := hashNewPassword\<rparr>)
              in (Inr (fromModel (patch usr)),
                  s\<lparr>userModel := updateByPk (user_id usr) patch (userModel s)\<rparr>))"

section \<open>Example environment and states\<close>

text \<open>
  Concrete inputs on which the theorems below are run. The example hasher prefixes the
  password; the example signer \<open>signer\<close> is a function of the claims alone, as the
  spec gives \<^verbatim>\<open>issuePair(claims)\<close>; \<open>laterSigner\<close> is a signer whose output has
  moved on (a later issue time). The clock of \<open>env0\<close> reads 00:00:50 and, at the later
  read, two milliseconds more; its zone is UTC. \<open>newYorkZone\<close> is the zone of New
  York around the end of daylight saving time on 2026-11-01 (06:00:00 UTC, when the
  local clock goes from 02:00 back to 01:00), and the clock of \<open>envFallBack\<close> reads
  01:59:30 local time, thirty seconds before that.
\<close>

definition alice :: user where
  "alice =
     \<lparr>user_id = 1, email = ''a@x.com'', password = ''h:secret'', activationLink = ''link-1'',
      isActivated = True, displayName = ''Alice'', location = ''Oslo'',
      notifyAboutProductUpdates = False, notifyAboutMarketNewsletter = False,
      notifyAboutComments = False, notifyAboutPurchases = False\<rparr>"

definition blankUser :: user where
  "blankUser =
     \<lparr>user_id = 0, email = [], password = [], activationLink = [],
      isActivated = False, displayName = [], location = [],
      notifyAboutProductUpdates = False, notifyAboutMarketNewsletter = False,
      notifyAboutComments = False, notifyAboutPurchases = False\<rparr>"

definition signer :: "userDto \<Rightarrow> tokenPair" where
  "signer d = \<lparr>accessToken = ''a:'' @ dto_email d, refreshToken = ''r:'' @ dto_email d\<rparr>"

definition laterSigner :: "userDto \<Rightarrow> tokenPair" where
  "laterSigner d =
     \<lparr>accessToken = ''a2:'' @ dto_email d, refreshToken = ''r2:'' @ dto_email d\<rparr>"

definition env0 :: env where
  "env0 =
     \<lparr>bcrypt_hash = (\<lambda>p. ''h:'' @ p),
      bcrypt_compare = (\<lambda>p h. h = ''h:'' @ p),
      uuid_v4 = ''link-2'',
      generateTokens = signer,
      validateRefreshToken = (\<lambda>t. if t = ''r:a@x.com'' then Some (fromModel alice) else None),
      generateCode = 123456,
      currentDate = 50000,
      date = 50002,
      localTZA = (\<lambda>t isUTC. 0),
      mailDelivered = (\<lambda>em code. True),
      columnDefaults = blankUser\<rparr>"

definition envLater :: env where
  "envLater = env0\<lparr>generateTokens := laterSigner\<rparr>"


definition envMailDown :: env where
  "envMailDown = env0\<lparr>mailDelivered := (\<lambda>em code. False)\<rparr>"



definition emptyState :: state where
  "emptyState = \<lparr>userModel = [], nextUserId = 1, registrationCodeModel = Map.empty, tokenModel = []\<rparr>"

definition confirmedState :: state where
  "confirmedState =
     emptyState\<lparr>registrationCodeModel :=
       [''b@x.com'' \<mapsto> \<lparr>otp = 4711, expiresIn = 40000, isConfirmed = True\<rparr>]\<rparr>"

definition reissuedState :: state where
  "reissuedState =
     confirmedState\<lparr>registrationCodeModel := (registrationCodeModel confirmedState)
        (''b@x.com'' \<mapsto> \<lparr>otp = 123456, expiresIn = 110002, isConfirmed = False\<rparr>)\<rparr>"

definition cooldownState :: state where
  "cooldownState =
     emptyState\<lparr>registrationCodeModel :=
       [''b@x.com'' \<mapsto> \<lparr>otp = 4711, expiresIn = 65000, isConfirmed = False\<rparr>]\<rparr>"

definition sessionState :: state where
  "sessionState =
     \<lparr>userModel = [alice], nextUserId = 2, registrationCodeModel = Map.empty,
      tokenModel = [\<lparr>tok_userId = 1, tok_refreshToken = ''r:a@x.com''\<rparr>]\<rparr>"

definition rotatedState :: state where
  "rotatedState =
     sessionState\<lparr>tokenModel := [\<lparr>tok_userId = 1, tok_refreshToken = ''r2:a@x.com''\<rparr>]\<rparr>"


definition orphanState :: state where
  "orphanState = sessionState\<lparr>userModel := []\<rparr>"

section \<open>Facts about the stores\<close>

lemma find_saveRefreshToken:
  "findRefreshToken t (saveRefreshToken uid t ts) \<noteq> None"
  by (induction ts) (auto simp: findRefreshToken_def)

lemma find_removeRefreshToken_same:
  "findRefreshToken t (removeRefreshToken t ts) = None"
  by (induction ts) (auto simp: findRefreshToken_def removeRefreshToken_def)


lemma find_save_other:
  "t' \<noteq> t \<Longrightarrow> findRefreshToken t ts = None \<Longrightarrow> findRefreshToken t (saveRefreshToken uid t' ts) = None"
  by (induction ts) (auto simp: findRefreshToken_def)





lemma findByEmail_append_new:
  "findByEmail em us = None \<Longrightarrow> email u = em \<Longrightarrow> findByEmail em (us @ [u]) = Some u"
  by (induction us) (auto simp: findByEmail_def)

lemma updateByPk_map_frame:
  "(\<And>u. f (patch u) = f u) \<Longrightarrow> map f (updateByPk i patch us) = map f us"
  by (induction us) (auto simp: updateByPk_def)

lemma findByPk_updateByPk:
  "(\<And>u. user_id (patch u) = user_id u) \<Longrightarrow>
   findByPk i (updateByPk j patch us)
     = map_option (if i = j then patch else (\<lambda>u. u)) (findByPk i us)"
  by (induction us) (auto simp: findByPk_def updateByPk_def)

text \<open>
  A time value is its fields put together again, so setting the minute field to the next
  minute is adding 60000 milliseconds to the local time value.
\<close>

lemma time_fields:
  "MakeDate (Day t) (MakeTime (HourFromTime t) (MinFromTime t) (SecFromTime t) (msFromTime t)) = t"
proof -
  have a: "t mod 60000 = 1000 * ((t div 1000) mod 60) + t mod 1000"
    using zmod_zmult2_eq [of 60 t 1000] by simp
  have b: "t mod 3600000 = 60000 * ((t div 60000) mod 60) + t mod 60000"
    using zmod_zmult2_eq [of 60 t 60000] by simp
  have c: "t mod 86400000 = 3600000 * ((t div 3600000) mod 24) + t mod 3600000"
    using zmod_zmult2_eq [of 24 t 3600000] by simp
  have d: "t = 86400000 * (t div 86400000) + t mod 86400000"
    by simp
  show ?thesis
    unfolding MakeDate_def MakeTime_def Day_def HourFromTime_def MinFromTime_def
      SecFromTime_def msFromTime_def
    using a b c d by linarith
qed

lemma setMinutes_next:
  "setMinutes e d (getMinutes e d + 1) = UTC e (LocalTime e d + 60000)"
proof -
  let ?t = "LocalTime e d"
  have "MakeDate (Day ?t) (MakeTime (HourFromTime ?t) (MinFromTime ?t + 1) (SecFromTime ?t)
          (msFromTime ?t))
        = MakeDate (Day ?t) (MakeTime (HourFromTime ?t) (MinFromTime ?t) (SecFromTime ?t)
          (msFromTime ?t)) + 60000"
    by (simp add: MakeDate_def MakeTime_def algebra_simps)
  then show ?thesis
    by (simp add: setMinutes_def Let_def getMinutes_def time_fields)
qed

section \<open>Sign-up behind the registration gate\<close>

lemma signUp_success_iff:
  "(\<exists>r. fst (signUp e em pw s) = Inr r) \<longleftrightarrow>
     (findByEmail em (userModel s) = None \<and>
      (\<exists>c. registrationCodeModel s em = Some c \<and> isConfirmed c))"
  by (auto simp: signUp_def Let_def split: option.splits)

lemma signUp_success_effect:
  assumes "signUp e em pw s = (Inr r, s')"
  shows "registrationCodeModel s' em = None \<and>
     (\<exists>u. userModel s' = userModel s @ [u] \<and> email u = em \<and> isActivated u \<and>
          password u = bcrypt_hash e pw \<and> findByEmail em (userModel s') = Some u \<and>
          res_user r = fromModel u \<and>
          res_accessToken r = accessToken (generateTokens e (fromModel u)) \<and>
          res_refreshToken r = refreshToken (generateTokens e (fromModel u)) \<and>
          findRefreshToken (res_refreshToken r) (tokenModel s') \<noteq> None)"
proof -
  from assms have none: "findByEmail em (userModel s) = None"
    by (auto simp: signUp_def Let_def split: option.splits if_splits)
  define u where "u = (columnDefaults e)\<lparr>user_id := nextUserId s, email := em,
                         password := bcrypt_hash e pw, activationLink := uuid_v4 e,
                         isActivated := True\<rparr>"
  have fb: "findByEmail em (userModel s @ [u]) = Some u"
    using none by (simp add: findByEmail_append_new u_def)
  from assms none have r: "r = \<lparr>res_accessToken = accessToken (generateTokens e (fromModel u)),
                      res_refreshToken = refreshToken (generateTokens e (fromModel u)),
                      res_user = fromModel u\<rparr>"
    and s': "s' = s\<lparr>userModel := userModel s @ [u], nextUserId := Suc (nextUserId s),
                  registrationCodeModel := (registrationCodeModel s)(em := None),
                  tokenModel := saveRefreshToken (dto_id (fromModel u))
                     (refreshToken (generateTokens e (fromModel u))) (tokenModel s)\<rparr>"
    by (auto simp: signUp_def Let_def u_def split: option.splits if_splits)
  show ?thesis
    using fb by (auto simp: r s' u_def find_saveRefreshToken)
qed

text \<open>
  Claim C2. \<open>signUp\<close> succeeds exactly when no account has the email and the
  registration code stored for the email is confirmed. On success the code of that email
  no longer resolves, the account is appended with \<open>isActivated\<close> set and the hashed
  password, and the result is the signer's pair (whose refresh token is stored) with
  the projection of the new account. An existing account is reported first
  (\<open>AlreadyRegistered\<close>), whatever the state of the code; a missing or unconfirmed
  code is reported (\<open>RegistrationNotConfirmed\<close>) only when no account exists.
\<close>

theorem signUp_gate:
  "((\<exists>r. fst (signUp e em pw s) = Inr r) \<longleftrightarrow>
      (findByEmail em (userModel s) = None \<and>
       (\<exists>c. registrationCodeModel s em = Some c \<and> isConfirmed c))) \<and>
   (\<forall>r s'. signUp e em pw s = (Inr r, s') \<longrightarrow>
      registrationCodeModel s' em = None \<and>
      (\<exists>u. userModel s' = userModel s @ [u] \<and> email u = em \<and> isActivated u \<and>
           password u = bcrypt_hash e pw \<and> findByEmail em (userModel s') = Some u \<and>
           res_user r = fromModel u \<and>
           res_accessToken r = accessToken (generateTokens e (fromModel u)) \<and>
           res_refreshToken r = refreshToken (generateTokens e (fromModel u)) \<and>
           findRefreshToken (res_refreshToken r) (tokenModel s') \<noteq> None)) \<and>
   (findByEmail em (userModel s) \<noteq> None \<longrightarrow>
      signUp e em pw s =
        (Inl (BadRequest RegistrationError [item (Str em) AlreadyRegistered ''email'']), s)) \<and>
   (findByEmail em (userModel s) = None \<and>
    \<not> (\<exists>c. registrationCodeModel s em = Some c \<and> isConfirmed c) \<longrightarrow>
      signUp e em pw s =
        (Inl (BadRequest RegistrationError
                [item (Str em) RegistrationNotConfirmed ''email'']), s))"
proof (intro conjI)
  show "(\<exists>r. fst (signUp e em pw s) = Inr r) \<longleftrightarrow>
      (findByEmail em (userModel s) = None \<and>
       (\<exists>c. registrationCodeModel s em = Some c \<and> isConfirmed c))"
    by (rule signUp_success_iff)
next
  show "\<forall>r s'. signUp e em pw s = (Inr r, s') \<longrightarrow>
      registrationCodeModel s' em = None \<and>
      (\<exists>u. userModel s' = userModel s @ [u] \<and> email u = em \<and> isActivated u \<and>
           password u = bcrypt_hash e pw \<and> findByEmail em (userModel s') = Some u \<and>
           res_user r = fromModel u \<and>
           res_accessToken r = accessToken (generateTokens e (fromModel u)) \<and>
           res_refreshToken r = refreshToken (generateTokens e (fromModel u)) \<and>
           findRefreshToken (res_refreshToken r) (tokenModel s') \<noteq> None)"
    using signUp_success_effect by blast
next
  show "findByEmail em (userModel s) \<noteq> None \<longrightarrow>
      signUp e em pw s =
        (Inl (BadRequest RegistrationError [item (Str em) AlreadyRegistered ''email'']), s)"
    by (auto simp: signUp_def)
next
  show "findByEmail em (userModel s) = None \<and>
    \<not> (\<exists>c. registrationCodeModel s em = Some c \<and> isConfirmed c) \<longrightarrow>
      signUp e em pw s =
        (Inl (BadRequest RegistrationError
                [item (Str em) RegistrationNotConfirmed ''email'']), s)"
    by (auto simp: signUp_def split: option.splits)
qed

theorem signUp_gate_witness:
  "findByEmail ''b@x.com'' (userModel confirmedState) = None \<and>
   registrationCodeModel confirmedState ''b@x.com''
     = Some \<lparr>otp = 4711, expiresIn = 40000, isConfirmed = True\<rparr> \<and>
   (\<exists>r. fst (signUp env0 ''b@x.com'' ''pw'' confirmedState) = Inr r) \<and>
   registrationCodeModel (snd (signUp env0 ''b@x.com'' ''pw'' confirmedState)) ''b@x.com'' = None \<and>
   findByEmail ''a@x.com'' (userModel sessionState) = Some alice \<and>
   signUp env0 ''a@x.com'' ''pw'' sessionState =
     (Inl (BadRequest RegistrationError [item (Str ''a@x.com'') AlreadyRegistered ''email'']),
      sessionState) \<and>
   registrationCodeModel confirmedState ''c@x.com'' = None \<and>
   signUp env0 ''c@x.com'' ''pw'' confirmedState =
     (Inl (BadRequest RegistrationError
             [item (Str ''c@x.com'') RegistrationNotConfirmed ''email'']), confirmedState)"
proof -
  have h1: "findByEmail ''b@x.com'' (userModel confirmedState) = None"
    by (simp add: findByEmail_def confirmedState_def emptyState_def)
  have h2: "registrationCodeModel confirmedState ''b@x.com''
     = Some \<lparr>otp = 4711, expiresIn = 40000, isConfirmed = True\<rparr>"
    by (simp add: confirmedState_def)
  have h3: "findByEmail ''a@x.com'' (userModel sessionState) = Some alice"
    by (simp add: findByEmail_def sessionState_def alice_def)
  have h4: "registrationCodeModel confirmedState ''c@x.com'' = None"
    by (simp add: confirmedState_def emptyState_def)
  have h5: "findByEmail ''c@x.com'' (userModel confirmedState) = None"
    by (simp add: findByEmail_def confirmedState_def emptyState_def)
  note g1 = signUp_gate [of env0 "''b@x.com''" "''pw''" confirmedState]
  note g2 = signUp_gate [of env0 "''a@x.com''" "''pw''" sessionState]
  note g3 = signUp_gate [of env0 "''c@x.com''" "''pw''" confirmedState]
  from g1 h1 h2 have ok: "\<exists>r. fst (signUp env0 ''b@x.com'' ''pw'' confirmedState) = Inr r"
    by simp
  then obtain r where r: "signUp env0 ''b@x.com'' ''pw'' confirmedState
      = (Inr r, snd (signUp env0 ''b@x.com'' ''pw'' confirmedState))"
    by (metis prod.collapse)
  with g1 have gone:
    "registrationCodeModel (snd (signUp env0 ''b@x.com'' ''pw'' confirmedState)) ''b@x.com'' = None"
    by blast
  from g2 h3 have already: "signUp env0 ''a@x.com'' ''pw'' sessionState =
     (Inl (BadRequest RegistrationError [item (Str ''a@x.com'') AlreadyRegistered ''email'']),
      sessionState)"
    by simp
  from g3 h4 h5 have notyet: "signUp env0 ''c@x.com'' ''pw'' confirmedState =
     (Inl (BadRequest RegistrationError
             [item (Str ''c@x.com'') RegistrationNotConfirmed ''email'']), confirmedState)"
    by simp
  from h1 h2 ok gone h3 already h4 notyet show ?thesis by blast
qed

section \<open>Issuing a registration code\<close>




text \<open>
  Claim C8, as amended. The sender is awaited as the last step, after the upsert: past
  the account and cooldown checks the new row is written in any case, and the call
  returns the projection when the sender's promise is fulfilled and fails with the
  sender's rejection when it is not.
\<close>

theorem sendRegistrationCode_awaits_sender:
  assumes "findByEmail em (userModel s) = None"
    and "case registrationCodeModel s em of None \<Rightarrow> True | Some c \<Rightarrow> \<not> expiresIn c > currentDate e"
  shows "sendRegistrationCode e em s =
     (if mailDelivered e em (generateCode e)
      then Inr \<lparr>rc_email = em, rc_expiresIn = setMinutes e (date e) (getMinutes e (date e) + 1),
            rc_isConfirmed = False\<rparr>
      else Inl MailError,
      s\<lparr>registrationCodeModel := (registrationCodeModel s)
           (em \<mapsto> \<lparr>otp = generateCode e, expiresIn = setMinutes e (date e) (getMinutes e (date e) + 1),
                  isConfirmed = False\<rparr>)\<rparr>)"
  using assms
  by (auto simp: sendRegistrationCode_def Let_def regCodeDtoOf_def split: option.splits)

theorem sendRegistrationCode_awaits_sender_witness:
  "findByEmail ''b@x.com'' (userModel emptyState) = None \<and>
   registrationCodeModel emptyState ''b@x.com'' = None \<and>
   sendRegistrationCode envMailDown ''b@x.com'' emptyState =
     (Inl MailError,
      emptyState\<lparr>registrationCodeModel :=
        [''b@x.com'' \<mapsto> \<lparr>otp = 123456, expiresIn = 110002, isConfirmed = False\<rparr>]\<rparr>)"
proof -
  have h1: "findByEmail ''b@x.com'' (userModel emptyState) = None"
    by (simp add: findByEmail_def emptyState_def)
  have h2: "registrationCodeModel emptyState ''b@x.com'' = None"
    by (simp add: emptyState_def)
  have h2': "case registrationCodeModel emptyState ''b@x.com'' of None \<Rightarrow> True
             | Some c \<Rightarrow> \<not> expiresIn c > currentDate envMailDown"
    using h2 by simp
  have vals: "\<not> mailDelivered envMailDown ''b@x.com'' (generateCode envMailDown)"
    "generateCode envMailDown = 123456"
    "setMinutes envMailDown (date envMailDown) (getMinutes envMailDown (date envMailDown) + 1)
       = 110002"
    "registrationCodeModel emptyState = Map.empty"
    by (simp_all add: envMailDown_def env0_def emptyState_def setMinutes_next UTC_def
        LocalTime_def)
  from sendRegistrationCode_awaits_sender [OF h1 h2'] h1 h2 vals show ?thesis by simp
qed

text \<open>
  Claim C8 as stated fails: with the same email and the same state, the call returns the
  projection when the sender delivers and fails when the sender does not.
\<close>

theorem sender_failure_counterexample:
  "fst (sendRegistrationCode env0 ''b@x.com'' emptyState)
     = Inr \<lparr>rc_email = ''b@x.com'', rc_expiresIn = 110002, rc_isConfirmed = False\<rparr> \<and>
   fst (sendRegistrationCode envMailDown ''b@x.com'' emptyState) = Inl MailError"
  by (simp add: sendRegistrationCode_def Let_def regCodeDtoOf_def findByEmail_def
      setMinutes_next UTC_def LocalTime_def emptyState_def envMailDown_def env0_def)

text \<open>
  Claim C3 at a concrete input. The stored code expires at 00:01:05 and the clock reads
  00:00:50: fifteen seconds remain, the call fails with \<open>CooldownActive\<close>, and the
  \<open>secondsLeft\<close> it reports is the difference of the two seconds-of-the-minute,
  \<open>5 - 50\<close>.
\<close>

theorem cooldown_secondsLeft_across_minute:
  "findByEmail ''b@x.com'' (userModel cooldownState) = None \<and>
   registrationCodeModel cooldownState ''b@x.com''
     = Some \<lparr>otp = 4711, expiresIn = 65000, isConfirmed = False\<rparr> \<and>
   currentDate env0 = 50000 \<and>
   sendRegistrationCode env0 ''b@x.com'' cooldownState =
     (Inl (BadRequest CodeSendError
        [\<lparr>err_value = Str ''b@x.com'', msg = CooldownActive, param = ''email'',
          secondsLeft = Some (- 45), isExpired = None\<rparr>]), cooldownState)"
  by (simp add: sendRegistrationCode_def Let_def findByEmail_def getSeconds_def
      SecFromTime_def LocalTime_def item_def cooldownState_def emptyState_def env0_def)

text \<open>
  Claim C10. After a successful issuance for an email the stored row is unconfirmed,
  whatever was stored before (in particular a confirmed, expired code): \<open>signUp\<close>
  for the email then fails with \<open>RegistrationNotConfirmed\<close>, for every password and
  environment, and once \<open>verifyRegistrationCode\<close> has succeeded on the new state
  (which it does only for the newly issued code) \<open>signUp\<close> succeeds again.
\<close>

theorem reissue_resets_confirmation:
  assumes "sendRegistrationCode e em s = (Inr dto, s')"
  shows "registrationCodeModel s' em
           = Some \<lparr>otp = generateCode e, expiresIn = setMinutes e (date e) (getMinutes e (date e) + 1),
                  isConfirmed = False\<rparr> \<and>
     (\<forall>e' pw. signUp e' em pw s' =
        (Inl (BadRequest RegistrationError
                [item (Str em) RegistrationNotConfirmed ''email'']), s')) \<and>
     (\<forall>e' code dto' s''. verifyRegistrationCode e' em code s' = (Inr dto', s'') \<longrightarrow>
        code = generateCode e \<and> (\<forall>e'' pw. \<exists>r. fst (signUp e'' em pw s'') = Inr r))"
proof -
  from assms have none: "findByEmail em (userModel s) = None"
    by (auto simp: sendRegistrationCode_def split: option.splits)
  from assms none have s': "s' = s\<lparr>registrationCodeModel := (registrationCodeModel s)
           (em \<mapsto> \<lparr>otp = generateCode e, expiresIn = setMinutes e (date e) (getMinutes e (date e) + 1),
                  isConfirmed = False\<rparr>)\<rparr>"
    by (auto simp: sendRegistrationCode_def Let_def split: option.splits if_splits)
  have a: "registrationCodeModel s' em
           = Some \<lparr>otp = generateCode e, expiresIn = setMinutes e (date e) (getMinutes e (date e) + 1),
                  isConfirmed = False\<rparr>"
    by (simp add: s')
  have u: "findByEmail em (userModel s') = None" using none by (simp add: s')
  have b: "\<forall>e' pw. signUp e' em pw s' =
        (Inl (BadRequest RegistrationError
                [item (Str em) RegistrationNotConfirmed ''email'']), s')"
    using a u by (simp add: signUp_def)
  have c: "\<forall>e' code dto' s''. verifyRegistrationCode e' em code s' = (Inr dto', s'') \<longrightarrow>
        code = generateCode e \<and> (\<forall>e'' pw. \<exists>r. fst (signUp e'' em pw s'') = Inr r)"
  proof (intro allI impI)
    fix e' code dto' s''
    assume v: "verifyRegistrationCode e' em code s' = (Inr dto', s'')"
    from v a have code: "code = generateCode e"
      by (auto simp: verifyRegistrationCode_def split: if_splits)
    from v a code have s'': "registrationCodeModel s'' em
        = Some \<lparr>otp = generateCode e, expiresIn = setMinutes e (date e) (getMinutes e (date e) + 1),
                  isConfirmed = True\<rparr>"
      and us: "userModel s'' = userModel s'"
      by (auto simp: verifyRegistrationCode_def Let_def split: if_splits)
    have "\<forall>e'' pw. \<exists>r. fst (signUp e'' em pw s'') = Inr r"
      using s'' us u by (simp add: signUp_success_iff)
    with code show "code = generateCode e \<and> (\<forall>e'' pw. \<exists>r. fst (signUp e'' em pw s'') = Inr r)"
      by simp
  qed
  from a b c show ?thesis by blast
qed

lemma send_reissue_example:
  "sendRegistrationCode env0 ''b@x.com'' confirmedState =
     (Inr \<lparr>rc_email = ''b@x.com'', rc_expiresIn = 110002, rc_isConfirmed = False\<rparr>,
      reissuedState)"
  by (simp add: sendRegistrationCode_def Let_def regCodeDtoOf_def findByEmail_def
      setMinutes_next UTC_def LocalTime_def confirmedState_def emptyState_def env0_def
      reissuedState_def)

theorem reissue_resets_confirmation_witness:
  "sendRegistrationCode env0 ''b@x.com'' confirmedState =
     (Inr \<lparr>rc_email = ''b@x.com'', rc_expiresIn = 110002, rc_isConfirmed = False\<rparr>,
      reissuedState) \<and>
   registrationCodeModel confirmedState ''b@x.com''
     = Some \<lparr>otp = 4711, expiresIn = 40000, isConfirmed = True\<rparr> \<and>
   registrationCodeModel reissuedState ''b@x.com''
     = Some \<lparr>otp = generateCode env0, expiresIn = setMinutes env0 (date env0) (getMinutes env0 (date env0) + 1),
              isConfirmed = False\<rparr> \<and>
   signUp env0 ''b@x.com'' ''pw'' reissuedState =
     (Inl (BadRequest RegistrationError
             [item (Str ''b@x.com'') RegistrationNotConfirmed ''email'']), reissuedState) \<and>
   verifyRegistrationCode env0 ''b@x.com'' 123456 reissuedState =
     (Inr \<lparr>rc_email = ''b@x.com'', rc_expiresIn = 110002, rc_isConfirmed = True\<rparr>,
      snd (verifyRegistrationCode env0 ''b@x.com'' 123456 reissuedState)) \<and>
   (\<exists>r. fst (signUp env0 ''b@x.com'' ''pw''
               (snd (verifyRegistrationCode env0 ''b@x.com'' 123456 reissuedState))) = Inr r)"
proof -
  note t = reissue_resets_confirmation [OF send_reissue_example]
  have old: "registrationCodeModel confirmedState ''b@x.com''
     = Some \<lparr>otp = 4711, expiresIn = 40000, isConfirmed = True\<rparr>"
    by (simp add: confirmedState_def)
  have v: "verifyRegistrationCode env0 ''b@x.com'' 123456 reissuedState =
     (Inr \<lparr>rc_email = ''b@x.com'', rc_expiresIn = 110002, rc_isConfirmed = True\<rparr>,
      snd (verifyRegistrationCode env0 ''b@x.com'' 123456 reissuedState))"
    by (simp add: verifyRegistrationCode_def Let_def regCodeDtoOf_def reissuedState_def env0_def)
  from t v have "\<exists>r. fst (signUp env0 ''b@x.com'' ''pw''
               (snd (verifyRegistrationCode env0 ''b@x.com'' 123456 reissuedState))) = Inr r"
    by blast
  with t old v send_reissue_example show ?thesis by blast
qed

section \<open>Verifying a registration code\<close>

text \<open>
  Claim C4. \<open>verifyRegistrationCode\<close> fails with \<open>InvalidCode\<close> and
  \<open>isExpired = False\<close>, leaving the state alone, when no stored row has both the
  email and the code; it fails with \<open>ExpiredCode\<close> and \<open>isExpired = True\<close>,
  leaving the state alone, when the matching row's expiry is before the clock; otherwise
  it sets \<open>isConfirmed\<close> on the row and returns the row's projection.
\<close>

theorem verifyRegistrationCode_cases:
  "((\<forall>c. registrationCodeModel s em = Some c \<longrightarrow> otp c \<noteq> code) \<longrightarrow>
      verifyRegistrationCode e em code s =
        (Inl (BadRequest CodeEntryError
           [\<lparr>err_value = Num code, msg = InvalidCode, param = ''code'',
             secondsLeft = None, isExpired = Some False\<rparr>]), s)) \<and>
   (\<forall>c. registrationCodeModel s em = Some c \<and> otp c = code \<and> expiresIn c < currentDate e \<longrightarrow>
      verifyRegistrationCode e em code s =
        (Inl (BadRequest CodeEntryError
           [\<lparr>err_value = Num code, msg = ExpiredCode, param = ''code'',
             secondsLeft = None, isExpired = Some True\<rparr>]), s)) \<and>
   (\<forall>c. registrationCodeModel s em = Some c \<and> otp c = code \<and> \<not> expiresIn c < currentDate e \<longrightarrow>
      verifyRegistrationCode e em code s =
        (Inr \<lparr>rc_email = em, rc_expiresIn = expiresIn c, rc_isConfirmed = True\<rparr>,
         s\<lparr>registrationCodeModel :=
             (registrationCodeModel s)(em \<mapsto> c\<lparr>isConfirmed := True\<rparr>)\<rparr>))"
  by (auto simp: verifyRegistrationCode_def Let_def item_def regCodeDtoOf_def
      split: option.splits)

theorem verifyRegistrationCode_cases_witness:
  "registrationCodeModel cooldownState ''b@x.com''
     = Some \<lparr>otp = 4711, expiresIn = 65000, isConfirmed = False\<rparr> \<and>
   verifyRegistrationCode env0 ''b@x.com'' 1234 cooldownState =
     (Inl (BadRequest CodeEntryError
        [\<lparr>err_value = Num 1234, msg = InvalidCode, param = ''code'',
          secondsLeft = None, isExpired = Some False\<rparr>]), cooldownState) \<and>
   verifyRegistrationCode env0 ''c@x.com'' 4711 cooldownState =
     (Inl (BadRequest CodeEntryError
        [\<lparr>err_value = Num 4711, msg = InvalidCode, param = ''code'',
          secondsLeft = None, isExpired = Some False\<rparr>]), cooldownState) \<and>
   registrationCodeModel confirmedState ''b@x.com''
     = Some \<lparr>otp = 4711, expiresIn = 40000, isConfirmed = True\<rparr> \<and>
   verifyRegistrationCode env0 ''b@x.com'' 4711 confirmedState =
     (Inl (BadRequest CodeEntryError
        [\<lparr>err_value = Num 4711, msg = ExpiredCode, param = ''code'',
          secondsLeft = None, isExpired = Some True\<rparr>]), confirmedState) \<and>
   verifyRegistrationCode env0 ''b@x.com'' 4711 cooldownState =
     (Inr \<lparr>rc_email = ''b@x.com'', rc_expiresIn = 65000, rc_isConfirmed = True\<rparr>,
      cooldownState\<lparr>registrationCodeModel :=
        (registrationCodeModel cooldownState)
          (''b@x.com'' \<mapsto> \<lparr>otp = 4711, expiresIn = 65000, isConfirmed = True\<rparr>)\<rparr>)"
proof -
  have c1: "registrationCodeModel cooldownState ''b@x.com''
     = Some \<lparr>otp = 4711, expiresIn = 65000, isConfirmed = False\<rparr>"
    by (simp add: cooldownState_def)
  have c2: "registrationCodeModel cooldownState ''c@x.com'' = None"
    by (simp add: cooldownState_def emptyState_def)
  have c3: "registrationCodeModel confirmedState ''b@x.com''
     = Some \<lparr>otp = 4711, expiresIn = 40000, isConfirmed = True\<rparr>"
    by (simp add: confirmedState_def)
  have now: "currentDate env0 = 50000" by (simp add: env0_def)
  from verifyRegistrationCode_cases [of cooldownState "''b@x.com''" 1234 env0] c1
  have a: "verifyRegistrationCode env0 ''b@x.com'' 1234 cooldownState =
     (Inl (BadRequest CodeEntryError
        [\<lparr>err_value = Num 1234, msg = InvalidCode, param = ''code'',
          secondsLeft = None, isExpired = Some False\<rparr>]), cooldownState)"
    by simp
  from verifyRegistrationCode_cases [of cooldownState "''c@x.com''" 4711 env0] c2
  have b: "verifyRegistrationCode env0 ''c@x.com'' 4711 cooldownState =
     (Inl (BadRequest CodeEntryError
        [\<lparr>err_value = Num 4711, msg = InvalidCode, param = ''code'',
          secondsLeft = None, isExpired = Some False\<rparr>]), cooldownState)"
    by simp
  from verifyRegistrationCode_cases [of confirmedState "''b@x.com''" 4711 env0] c3 now
  have c: "verifyRegistrationCode env0 ''b@x.com'' 4711 confirmedState =
     (Inl (BadRequest CodeEntryError
        [\<lparr>err_value = Num 4711, msg = ExpiredCode, param = ''code'',
          secondsLeft = None, isExpired = Some True\<rparr>]), confirmedState)"
    by simp
  from verifyRegistrationCode_cases [of cooldownState "''b@x.com''" 4711 env0] c1 now
  have d: "verifyRegistrationCode env0 ''b@x.com'' 4711 cooldownState =
     (Inr \<lparr>rc_email = ''b@x.com'', rc_expiresIn = 65000, rc_isConfirmed = True\<rparr>,
      cooldownState\<lparr>registrationCodeModel :=
        (registrationCodeModel cooldownState)
          (''b@x.com'' \<mapsto> \<lparr>otp = 4711, expiresIn = 65000, isConfirmed = True\<rparr>)\<rparr>)"
    by simp
  from c1 a b c3 c d show ?thesis by blast
qed

section \<open>Changing the password\<close>

text \<open>
  Claim C5, as amended. \<open>updateProfilePassword\<close> fails with \<open>Mismatch\<close> whenever
  the new password and its confirmation differ. It fails with \<open>NoOpChange\<close> when the
  two are equal, the account exists, the old password compares equal to the stored hash
  and the new one does too; when the old password does not compare equal it fails with
  \<open>InvalidCredentials\<close> before the new password is looked at. Every failure leaves
  the state as it was, and a new password that compares equal to the stored hash of an
  existing account always ends in a failure.
\<close>

theorem updateProfilePassword_rejections:
  "(newPassword \<noteq> confirmNewPassword \<longrightarrow>
      updateProfilePassword e oldPassword newPassword confirmNewPassword userId s =
        (Inl (BadRequest PasswordUpdateError
                [item (Str confirmNewPassword) Mismatch ''confirmNewPassword'']), s)) \<and>
   (\<forall>usr. newPassword = confirmNewPassword \<and> findByPk userId (userModel s) = Some usr \<and>
          bcrypt_compare e oldPassword (password usr) \<and>
          bcrypt_compare e newPassword (password usr) \<longrightarrow>
      updateProfilePassword e oldPassword newPassword confirmNewPassword userId s =
        (Inl (BadRequest PasswordUpdateError
                [item (Str newPassword) NoOpChange ''newPassword'']), s)) \<and>
   (\<forall>usr. newPassword = confirmNewPassword \<and> findByPk userId (userModel s) = Some usr \<and>
          \<not> bcrypt_compare e oldPassword (password usr) \<longrightarrow>
      updateProfilePassword e oldPassword newPassword confirmNewPassword userId s =
        (Inl (BadRequest PasswordUpdateError
                [item (Str oldPassword) InvalidCredentials ''oldPassword'']), s)) \<and>
   (\<forall>err. fst (updateProfilePassword e oldPassword newPassword confirmNewPassword userId s)
            = Inl err \<longrightarrow>
      snd (updateProfilePassword e oldPassword newPassword confirmNewPassword userId s) = s) \<and>
   (\<forall>usr. findByPk userId (userModel s) = Some usr \<and>
          bcrypt_compare e newPassword (password usr) \<longrightarrow>
      (\<exists>err. updateProfilePassword e oldPassword newPassword confirmNewPassword userId s
               = (Inl err, s)))"
  by (auto simp: updateProfilePassword_def Let_def split: option.splits)

theorem updateProfilePassword_rejections_witness:
  "findByPk 1 (userModel sessionState) = Some alice \<and>
   bcrypt_compare env0 ''secret'' (password alice) \<and>
   \<not> bcrypt_compare env0 ''wrong'' (password alice) \<and>
   updateProfilePassword env0 ''secret'' ''fresh'' ''frehs'' 1 sessionState =
     (Inl (BadRequest PasswordUpdateError
             [item (Str ''frehs'') Mismatch ''confirmNewPassword'']), sessionState) \<and>
   updateProfilePassword env0 ''secret'' ''secret'' ''secret'' 1 sessionState =
     (Inl (BadRequest PasswordUpdateError
             [item (Str ''secret'') NoOpChange ''newPassword'']), sessionState) \<and>
   updateProfilePassword env0 ''wrong'' ''fresh'' ''fresh'' 1 sessionState =
     (Inl (BadRequest PasswordUpdateError
             [item (Str ''wrong'') InvalidCredentials ''oldPassword'']), sessionState)"
proof -
  have u: "findByPk 1 (userModel sessionState) = Some alice"
    by (simp add: findByPk_def sessionState_def alice_def)
  have p: "bcrypt_compare env0 ''secret'' (password alice)"
    and q: "\<not> bcrypt_compare env0 ''wrong'' (password alice)"
    by (simp_all add: env0_def alice_def)
  have ne: "''fresh'' \<noteq> ''frehs''" by simp
  from updateProfilePassword_rejections
         [of "''fresh''" "''frehs''" env0 "''secret''" 1 sessionState] ne
  have a: "updateProfilePassword env0 ''secret'' ''fresh'' ''frehs'' 1 sessionState =
     (Inl (BadRequest PasswordUpdateError
             [item (Str ''frehs'') Mismatch ''confirmNewPassword'']), sessionState)"
    by blast
  from updateProfilePassword_rejections
         [of "''secret''" "''secret''" env0 "''secret''" 1 sessionState] u p
  have b: "updateProfilePassword env0 ''secret'' ''secret'' ''secret'' 1 sessionState =
     (Inl (BadRequest PasswordUpdateError
             [item (Str ''secret'') NoOpChange ''newPassword'']), sessionState)"
    by blast
  from updateProfilePassword_rejections
         [of "''fresh''" "''fresh''" env0 "''wrong''" 1 sessionState] u q
  have c: "updateProfilePassword env0 ''wrong'' ''fresh'' ''fresh'' 1 sessionState =
     (Inl (BadRequest PasswordUpdateError
             [item (Str ''wrong'') InvalidCredentials ''oldPassword'']), sessionState)"
    by blast
  from u p q a b c show ?thesis by blast
qed

text \<open>
  Claim C5 as stated fails: the new password compares equal to the stored hash, and the
  call fails with \<open>InvalidCredentials\<close> (the old password is wrong) or with
  \<open>Mismatch\<close> (the confirmation differs), not with \<open>NoOpChange\<close>.
\<close>

theorem noOpChange_counterexample:
  "findByPk 1 (userModel sessionState) = Some alice \<and>
   bcrypt_compare env0 ''secret'' (password alice) \<and>
   updateProfilePassword env0 ''wrong'' ''secret'' ''secret'' 1 sessionState =
     (Inl (BadRequest PasswordUpdateError
             [item (Str ''wrong'') InvalidCredentials ''oldPassword'']), sessionState) \<and>
   item (Str ''wrong'') InvalidCredentials ''oldPassword''
     \<noteq> item (Str ''secret'') NoOpChange ''newPassword'' \<and>
   updateProfilePassword env0 ''secret'' ''secret'' ''other'' 1 sessionState =
     (Inl (BadRequest PasswordUpdateError
             [item (Str ''other'') Mismatch ''confirmNewPassword'']), sessionState) \<and>
   item (Str ''other'') Mismatch ''confirmNewPassword''
     \<noteq> item (Str ''secret'') NoOpChange ''newPassword''"
  by (simp add: updateProfilePassword_def findByPk_def sessionState_def alice_def env0_def
      item_def)

section \<open>Changing the profile\<close>

lemma applyProfile_frame:
  "password (applyProfile d u) = password u \<and>
   isActivated (applyProfile d u) = isActivated u \<and>
   activationLink (applyProfile d u) = activationLink u \<and>
   user_id (applyProfile d u) = user_id u"
  by (simp add: applyProfile_def)

lemma updateProfileData_users:
  "userModel (snd (updateProfileData d userId s)) = userModel s \<or>
   userModel (snd (updateProfileData d userId s)) = updateByPk userId (applyProfile d) (userModel s)"
proof (cases "findByPk userId (userModel s)")
  case None
  then show ?thesis by (simp add: updateProfileData_def)
next
  case (Some usr)
  then have "user_id usr = userId"
    by (auto simp: findByPk_def dest: find_Some_iff [THEN iffD1])
  with Some show ?thesis by (simp add: updateProfileData_def)
qed

lemma updateProfileData_rows:
  "findByPk i (userModel (snd (updateProfileData d userId s)))
     = map_option (if i = userId then applyProfile d else (\<lambda>u. u)) (findByPk i (userModel s))"
proof (cases "findByPk userId (userModel s)")
  case None
  then show ?thesis by (cases "i = userId") (simp_all add: updateProfileData_def option.map_ident)
next
  case (Some usr)
  then have "user_id usr = userId"
    by (auto simp: findByPk_def dest: find_Some_iff [THEN iffD1])
  with Some show ?thesis
    by (simp add: updateProfileData_def findByPk_updateByPk applyProfile_frame)
qed

text \<open>
  Claim C9. For every user id and every input, \<open>updateProfileData\<close> keeps, row by
  row, the password hash, the activation flag, the activation link and the id of every
  account; the row of each id is the old one, patched with the profile fields when it is
  the caller's; the token table, the code table and the id counter are untouched.
\<close>

theorem updateProfileData_frame:
  "map password (userModel (snd (updateProfileData d userId s))) = map password (userModel s) \<and>
   map isActivated (userModel (snd (updateProfileData d userId s)))
     = map isActivated (userModel s) \<and>
   map activationLink (userModel (snd (updateProfileData d userId s)))
     = map activationLink (userModel s) \<and>
   map user_id (userModel (snd (updateProfileData d userId s))) = map user_id (userModel s) \<and>
   (\<forall>i. findByPk i (userModel (snd (updateProfileData d userId s)))
          = map_option (if i = userId then applyProfile d else (\<lambda>u. u))
              (findByPk i (userModel s))) \<and>
   (\<forall>u. password (applyProfile d u) = password u \<and>
        isActivated (applyProfile d u) = isActivated u \<and>
        activationLink (applyProfile d u) = activationLink u \<and>
        user_id (applyProfile d u) = user_id u) \<and>
   tokenModel (snd (updateProfileData d userId s)) = tokenModel s \<and>
   registrationCodeModel (snd (updateProfileData d userId s)) = registrationCodeModel s \<and>
   nextUserId (snd (updateProfileData d userId s)) = nextUserId s"
proof -
  have rest: "tokenModel (snd (updateProfileData d userId s)) = tokenModel s \<and>
   registrationCodeModel (snd (updateProfileData d userId s)) = registrationCodeModel s \<and>
   nextUserId (snd (updateProfileData d userId s)) = nextUserId s"
    by (simp add: updateProfileData_def split: option.splits)
  have cols:
    "map password (updateByPk userId (applyProfile d) (userModel s)) = map password (userModel s)"
    "map isActivated (updateByPk userId (applyProfile d) (userModel s))
       = map isActivated (userModel s)"
    "map activationLink (updateByPk userId (applyProfile d) (userModel s))
       = map activationLink (userModel s)"
    "map user_id (updateByPk userId (applyProfile d) (userModel s)) = map user_id (userModel s)"
    by (simp_all add: updateByPk_map_frame applyProfile_frame)
  have maps: "map password (userModel (snd (updateProfileData d userId s)))
       = map password (userModel s) \<and>
     map isActivated (userModel (snd (updateProfileData d userId s)))
       = map isActivated (userModel s) \<and>
     map activationLink (userModel (snd (updateProfileData d userId s)))
       = map activationLink (userModel s) \<and>
     map user_id (userModel (snd (updateProfileData d userId s))) = map user_id (userModel s)"
    using updateProfileData_users [of d userId s] cols by auto
  have rows: "\<forall>i. findByPk i (userModel (snd (updateProfileData d userId s)))
          = map_option (if i = userId then applyProfile d else (\<lambda>u. u))
              (findByPk i (userModel s))"
    by (simp add: updateProfileData_rows)
  have fr: "\<forall>u. password (applyProfile d u) = password u \<and>
        isActivated (applyProfile d u) = isActivated u \<and>
        activationLink (applyProfile d u) = activationLink u \<and>
        user_id (applyProfile d u) = user_id u"
    by (simp add: applyProfile_frame)
  from maps rows fr rest show ?thesis by blast
qed

section \<open>Refreshing a session\<close>

lemma refresh_success:
  assumes "tok \<noteq> []"
    and "findRefreshToken tok (tokenModel s) = Some row"
    and "validateRefreshToken e tok = Some userData"
    and "findByPk (dto_id userData) (userModel s) = Some usr"
  shows "refresh e tok s =
     (Inr \<lparr>res_accessToken = accessToken (generateTokens e (fromModel usr)),
           res_refreshToken = refreshToken (generateTokens e (fromModel usr)),
           res_user = fromModel usr\<rparr>,
      s\<lparr>tokenModel := saveRefreshToken (user_id usr) (refreshToken (generateTokens e (fromModel usr)))
                        (removeRefreshToken tok (tokenModel s))\<rparr>)"
  using assms by (simp add: refresh_def Let_def fromModel_def)

lemma refresh_not_stored:
  "findRefreshToken tok (tokenModel s) = None \<Longrightarrow> refresh e tok s = (Inl UnauthorizedError, s)"
  by (simp add: refresh_def)




text \<open>
  Claim C1, as amended. For a non-empty refresh token that matches a stored row, that the
  signer validates and whose claims name an existing account, \<open>refresh\<close> succeeds and
  returns the pair the signer issues for the projection of that account; the new refresh
  token is stored. When the new refresh token differs from the old one, a second
  \<open>refresh\<close> of the old one fails with \<open>UnauthorizedError\<close> and changes nothing,
  whatever the environment.
\<close>

theorem refresh_rotates:
  assumes "tok \<noteq> []"
    and "findRefreshToken tok (tokenModel s) = Some row"
    and "validateRefreshToken e tok = Some userData"
    and "findByPk (dto_id userData) (userModel s) = Some usr"
  shows "fst (refresh e tok s) =
       Inr \<lparr>res_accessToken = accessToken (generateTokens e (fromModel usr)),
            res_refreshToken = refreshToken (generateTokens e (fromModel usr)),
            res_user = fromModel usr\<rparr> \<and>
     findRefreshToken (refreshToken (generateTokens e (fromModel usr)))
       (tokenModel (snd (refresh e tok s))) \<noteq> None \<and>
     (refreshToken (generateTokens e (fromModel usr)) \<noteq> tok \<longrightarrow>
        (\<forall>e'. refresh e' tok (snd (refresh e tok s))
                = (Inl UnauthorizedError, snd (refresh e tok s))))"
proof -
  let ?t' = "refreshToken (generateTokens e (fromModel usr))"
  note r = refresh_success [OF assms]
  have a: "findRefreshToken ?t' (tokenModel (snd (refresh e tok s))) \<noteq> None"
    by (simp add: r find_saveRefreshToken)
  have b: "?t' \<noteq> tok \<longrightarrow>
        (\<forall>e'. refresh e' tok (snd (refresh e tok s))
                = (Inl UnauthorizedError, snd (refresh e tok s)))"
  proof (intro impI allI)
    fix e'
    assume ne: "?t' \<noteq> tok"
    have "findRefreshToken tok (tokenModel (snd (refresh e tok s))) = None"
      using ne by (simp add: r find_save_other find_removeRefreshToken_same)
    then show "refresh e' tok (snd (refresh e tok s))
                = (Inl UnauthorizedError, snd (refresh e tok s))"
      by (rule refresh_not_stored)
  qed
  from a b show ?thesis by (simp add: r)
qed

theorem refresh_rotates_witness:
  "''r:a@x.com'' \<noteq> [] \<and>
   findRefreshToken ''r:a@x.com'' (tokenModel sessionState)
     = Some \<lparr>tok_userId = 1, tok_refreshToken = ''r:a@x.com''\<rparr> \<and>
   validateRefreshToken envLater ''r:a@x.com'' = Some (fromModel alice) \<and>
   findByPk (dto_id (fromModel alice)) (userModel sessionState) = Some alice \<and>
   refresh envLater ''r:a@x.com'' sessionState =
     (Inr \<lparr>res_accessToken = ''a2:a@x.com'', res_refreshToken = ''r2:a@x.com'',
           res_user = fromModel alice\<rparr>, rotatedState) \<and>
   refresh envLater ''r:a@x.com'' rotatedState = (Inl UnauthorizedError, rotatedState)"
proof -
  have h1: "''r:a@x.com'' \<noteq> []" by simp
  have h2: "findRefreshToken ''r:a@x.com'' (tokenModel sessionState)
     = Some \<lparr>tok_userId = 1, tok_refreshToken = ''r:a@x.com''\<rparr>"
    by (simp add: findRefreshToken_def sessionState_def)
  have h3: "validateRefreshToken envLater ''r:a@x.com'' = Some (fromModel alice)"
    by (simp add: envLater_def env0_def)
  have h4: "findByPk (dto_id (fromModel alice)) (userModel sessionState) = Some alice"
    by (simp add: findByPk_def sessionState_def fromModel_def alice_def)
  have run: "refresh envLater ''r:a@x.com'' sessionState =
     (Inr \<lparr>res_accessToken = ''a2:a@x.com'', res_refreshToken = ''r2:a@x.com'',
           res_user = fromModel alice\<rparr>, rotatedState)"
    by (simp add: refresh_def Let_def findRefreshToken_def removeRefreshToken_def
        findByPk_def sessionState_def rotatedState_def envLater_def env0_def laterSigner_def
        fromModel_def alice_def)
  have new: "refreshToken (generateTokens envLater (fromModel alice)) \<noteq> ''r:a@x.com''"
    by (simp add: envLater_def laterSigner_def fromModel_def alice_def)
  from refresh_rotates [OF h1 h2 h3 h4] new
  have "refresh envLater ''r:a@x.com'' (snd (refresh envLater ''r:a@x.com'' sessionState))
          = (Inl UnauthorizedError, snd (refresh envLater ''r:a@x.com'' sessionState))"
    by blast
  then have again: "refresh envLater ''r:a@x.com'' rotatedState = (Inl UnauthorizedError, rotatedState)"
    by (simp add: run)
  from h1 h2 h3 h4 run again show ?thesis by blast
qed

text \<open>
  Claim C1 as stated fails. With a signer that is a function of the claims, the pair
  issued for an unchanged account is the pair issued before: the first \<open>refresh\<close>
  returns the very token it was given, stores it again, and the second \<open>refresh\<close> of
  that token succeeds. And when the validated claims name no account, the call neither
  succeeds nor fails with \<open>UnauthorizedError\<close>.
\<close>

theorem refresh_same_token_counterexample:
  "''r:a@x.com'' \<noteq> [] \<and>
   findRefreshToken ''r:a@x.com'' (tokenModel sessionState)
     = Some \<lparr>tok_userId = 1, tok_refreshToken = ''r:a@x.com''\<rparr> \<and>
   validateRefreshToken env0 ''r:a@x.com'' = Some (fromModel alice) \<and>
   refresh env0 ''r:a@x.com'' sessionState =
     (Inr \<lparr>res_accessToken = ''a:a@x.com'', res_refreshToken = ''r:a@x.com'',
           res_user = fromModel alice\<rparr>, sessionState) \<and>
   fst (refresh env0 ''r:a@x.com'' (snd (refresh env0 ''r:a@x.com'' sessionState))) =
     Inr \<lparr>res_accessToken = ''a:a@x.com'', res_refreshToken = ''r:a@x.com'',
          res_user = fromModel alice\<rparr> \<and>
   findRefreshToken ''r:a@x.com'' (tokenModel orphanState)
     = Some \<lparr>tok_userId = 1, tok_refreshToken = ''r:a@x.com''\<rparr> \<and>
   fst (refresh env0 ''r:a@x.com'' orphanState) = Inl TypeError"
proof -
  have run: "refresh env0 ''r:a@x.com'' sessionState =
     (Inr \<lparr>res_accessToken = ''a:a@x.com'', res_refreshToken = ''r:a@x.com'',
           res_user = fromModel alice\<rparr>, sessionState)"
    by (simp add: refresh_def Let_def findRefreshToken_def removeRefreshToken_def
        findByPk_def sessionState_def env0_def signer_def fromModel_def alice_def)
  have "findRefreshToken ''r:a@x.com'' (tokenModel sessionState)
     = Some \<lparr>tok_userId = 1, tok_refreshToken = ''r:a@x.com''\<rparr>"
    by (simp add: findRefreshToken_def sessionState_def)
  moreover have "validateRefreshToken env0 ''r:a@x.com'' = Some (fromModel alice)"
    by (simp add: env0_def)
  moreover have "findRefreshToken ''r:a@x.com'' (tokenModel orphanState)
     = Some \<lparr>tok_userId = 1, tok_refreshToken = ''r:a@x.com''\<rparr>"
    by (simp add: findRefreshToken_def sessionState_def orphanState_def)
  moreover have "fst (refresh env0 ''r:a@x.com'' orphanState) = Inl TypeError"
    by (simp add: refresh_def Let_def findRefreshToken_def removeRefreshToken_def
        findByPk_def sessionState_def orphanState_def env0_def fromModel_def alice_def)
  ultimately show ?thesis by (simp add: run)
qed



end
